theory Spec2Isabelle
  imports Main "HOL-Library.Multiset"
begin

section \<open>Python strings\<close>

text \<open>
  The scheduling engine of \<^verbatim>\<open>app.py\<close> works on text: times are \<^verbatim>\<open>"HH:MM"\<close>,
  booked intervals are \<^verbatim>\<open>"HH:MM-HH:MM"\<close>, dates are \<^verbatim>\<open>"YYYY-MM-DD"\<close>.  The
  string methods the source calls are modelled on \<^typ>\<open>string\<close> for ASCII text:
  a character outside ASCII is an ordinary character that is neither white space, nor a
  digit, nor a letter with a lower-case form.
\<close>

definition is_space :: "char \<Rightarrow> bool" where
  \<comment> \<open>the ASCII characters for which \<^verbatim>\<open>str.isspace\<close> holds: TAB, LF, VT, FF, CR,
      FS, GS, RS, US and the blank\<close>
  "is_space c = (of_char c \<in> {9, 10, 11, 12, 13, 28, 29, 30, 31, 32 :: nat})"

definition is_digit :: "char \<Rightarrow> bool" where
  "is_digit c = (48 \<le> (of_char c :: nat) \<and> (of_char c :: nat) \<le> 57)"

definition lower_char :: "char \<Rightarrow> char" where
  "lower_char c =
     (if 65 \<le> (of_char c :: nat) \<and> (of_char c :: nat) \<le> 90
      then char_of (of_char c + 32 :: nat) else c)"

definition upper_char :: "char \<Rightarrow> char" where
  "upper_char c =
     (if 97 \<le> (of_char c :: nat) \<and> (of_char c :: nat) \<le> 122
      then char_of (of_char c - 32 :: nat) else c)"

definition strip :: "string \<Rightarrow> string" where
  \<comment> \<open>\<^verbatim>\<open>s.strip()\<close>\<close>
  "strip s = rev (dropWhile is_space (rev (dropWhile is_space s)))"

definition lower :: "string \<Rightarrow> string" where
  \<comment> \<open>\<^verbatim>\<open>s.lower()\<close>\<close>
  "lower s = map lower_char s"

definition capitalize :: "string \<Rightarrow> string" where
  \<comment> \<open>\<^verbatim>\<open>s.capitalize()\<close>: first character upper case, the rest lower case\<close>
  "capitalize s = (case s of [] \<Rightarrow> [] | c # cs \<Rightarrow> upper_char c # map lower_char cs)"

definition startswith :: "string \<Rightarrow> string \<Rightarrow> bool" where
  "startswith s p = (take (length p) s = p)"

definition endswith :: "string \<Rightarrow> string \<Rightarrow> bool" where
  "endswith s p = (length p \<le> length s \<and> drop (length s - length p) s = p)"

fun py_in :: "string \<Rightarrow> string \<Rightarrow> bool" where
  \<comment> \<open>\<^verbatim>\<open>sub in s\<close>\<close>
  "py_in sub [] = (sub = [])"
| "py_in sub (c # cs) = (startswith (c # cs) sub \<or> py_in sub cs)"

fun py_replace :: "string \<Rightarrow> string \<Rightarrow> string \<Rightarrow> string" where
  \<comment> \<open>\<^verbatim>\<open>s.replace(old, new)\<close> for a non-empty \<open>old\<close> (the source never passes an
      empty one): the occurrences are replaced from left to right, without overlap\<close>
  "py_replace old new [] = []"
| "py_replace old new (c # cs) =
     (if old \<noteq> [] \<and> startswith (c # cs) old
      then new @ py_replace old new (drop (length old) (c # cs))
      else c # py_replace old new cs)"

fun split_where :: "(char \<Rightarrow> bool) \<Rightarrow> string \<Rightarrow> string list" where
  "split_where p [] = [[]]"
| "split_where p (c # cs) =
     (if p c then [] # split_where p cs
      else (case split_where p cs of
              [] \<Rightarrow> [[c]]
            | w # ws \<Rightarrow> (c # w) # ws))"

definition split_on :: "char \<Rightarrow> string \<Rightarrow> string list" where
  \<comment> \<open>\<^verbatim>\<open>s.split(sep)\<close> for a separator of one character: empty fields are kept\<close>
  "split_on sep s = split_where (\<lambda>c. c = sep) s"

definition split_ws :: "string \<Rightarrow> string list" where
  \<comment> \<open>\<^verbatim>\<open>s.split()\<close>: the maximal runs of characters that are not white space\<close>
  "split_ws s = filter (\<lambda>w. w \<noteq> []) (split_where is_space s)"

definition isdigit :: "string \<Rightarrow> bool" where
  \<comment> \<open>\<^verbatim>\<open>s.isdigit()\<close>: not empty, and every character a digit\<close>
  "isdigit s = (s \<noteq> [] \<and> list_all is_digit s)"

definition py_or :: "string \<Rightarrow> string \<Rightarrow> string" where
  \<comment> \<open>\<^verbatim>\<open>a or b\<close> on strings: the empty string is false\<close>
  "py_or a b = (if a = [] then b else a)"

section \<open>Python integers as text\<close>

definition digits_value :: "string \<Rightarrow> int" where
  \<comment> \<open>the number a string of decimal digits denotes\<close>
  "digits_value s = foldl (\<lambda>a c. 10 * a + (int (of_char c) - 48)) 0 s"

definition py_int :: "string \<Rightarrow> int option" where
  \<comment> \<open>\<^verbatim>\<open>int(s)\<close>; \<open>None\<close> is ValueError.  Python strips white space, takes an
      optional sign, and then wants decimal digits, where single underscores may stand
      between digits.  (The interpreter's optional cap on the number of digits is not
      modelled.)\<close>
  "py_int s =
     (let t = strip s;
          neg = (t \<noteq> [] \<and> hd t = CHR ''-'');
          body = (if t \<noteq> [] \<and> (hd t = CHR ''-'' \<or> hd t = CHR ''+'') then tl t else t)
      in if list_all isdigit (split_on (CHR ''_'') body)
         then (let v = digits_value (filter (\<lambda>c. c \<noteq> CHR ''_'') body)
               in Some (if neg then - v else v))
         else None)"

definition digit_char :: "nat \<Rightarrow> char" where
  "digit_char d = char_of (48 + d)"

fun show_nat :: "nat \<Rightarrow> string" where
  "show_nat n = (if n < 10 then [digit_char n] else show_nat (n div 10) @ [digit_char (n mod 10)])"

declare show_nat.simps [simp del]

definition fmt02d :: "int \<Rightarrow> string" where
  \<comment> \<open>the format \<^verbatim>\<open>{h:02d}\<close>: at least two characters, padded with zeros; a
      negative number carries its sign, which counts for the width\<close>
  "fmt02d h =
     (if h < 0 then CHR ''-'' # show_nat (nat (- h))
      else if h < 10 then CHR ''0'' # show_nat (nat h)
      else show_nat (nat h))"

section \<open>Time helpers of the source\<close>

definition time_to_minutes :: "string \<Rightarrow> int option" where
  \<comment> \<open>\<^verbatim>\<open>_time_to_minutes\<close>; \<open>None\<close> is the ValueError of an unpacking with other than
      two fields or of \<^verbatim>\<open>int\<close>\<close>
  "time_to_minutes hhmm =
     (case split_on (CHR '':'') hhmm of
        [h, m] \<Rightarrow>
          (case py_int h of
             None \<Rightarrow> None
           | Some hv \<Rightarrow>
               (case py_int m of
                  None \<Rightarrow> None
                | Some mv \<Rightarrow> Some (hv * 60 + mv)))
      | _ \<Rightarrow> None)"

definition minutes_to_time :: "int \<Rightarrow> string" where
  \<comment> \<open>\<^verbatim>\<open>_minutes_to_time\<close>; \<^verbatim>\<open>//\<close> and \<^verbatim>\<open>%\<close> round to minus infinity, as
      \<open>div\<close> and \<open>mod\<close> do on \<^typ>\<open>int\<close>\<close>
  "minutes_to_time m = fmt02d (m div 60) @ '':'' @ fmt02d (m mod 60)"

definition normalize_time_to_hhmm :: "string \<Rightarrow> string option" where
  \<comment> \<open>\<^verbatim>\<open>_normalize_time_to_hhmm\<close>; \<^verbatim>\<open>int\<close> is only applied to strings of digits,
      where it is \<^const>\<open>digits_value\<close>\<close>
  "normalize_time_to_hhmm s =
     (if s = [] then None
      else
        let t0 = py_replace '' '' [] (py_replace ''.'' '':'' (lower (strip s)));
            ampm = (if endswith t0 ''am'' \<or> endswith t0 ''pm''
                    then Some (drop (length t0 - 2) t0) else None);
            t = (if ampm \<noteq> None then take (length t0 - 2) t0 else t0);
            hm = (if isdigit t then Some (digits_value t, 0)
                  else if py_in '':'' t
                  then (let parts = split_on (CHR '':'') t
                        in if length parts \<noteq> 2 \<or> \<not> isdigit (parts ! 0) \<or> \<not> isdigit (parts ! 1)
                           then None
                           else Some (digits_value (parts ! 0), digits_value (parts ! 1)))
                  else None)
        in case hm of
             None \<Rightarrow> None
           | Some (h, m) \<Rightarrow>
               (let h' = (case ampm of
                            None \<Rightarrow> h
                          | Some a \<Rightarrow>
                              if a = ''am'' then (if h = 12 then 0 else h)
                              else (if h \<noteq> 12 then h + 12 else h))
                in if \<not> (0 \<le> h' \<and> h' \<le> 23 \<and> 0 \<le> m \<and> m \<le> 59) then None
                   else Some (fmt02d h' @ '':'' @ fmt02d m)))"

section \<open>Dates: the part of Python's \<^verbatim>\<open>datetime\<close> the source uses\<close>

text \<open>
  A \<^verbatim>\<open>datetime\<close> is kept as the proleptic Gregorian ordinal of its date (what
  \<^verbatim>\<open>toordinal()\<close> returns: 1 is 0001-01-01) and its time of day.  The business has
  one time zone, so the zone is not part of the model.  Year, month and day are
  computed from the ordinal as the library does.
\<close>

record datetime =
  dt_ordinal :: int
  dt_hour :: int
  dt_minute :: int
  dt_second :: int
  dt_microsecond :: int

datatype py_error = ValueError | OverflowError

definition MAXORDINAL :: int where
  \<comment> \<open>the ordinal of 9999-12-31\<close>
  "MAXORDINAL = 3652059"

definition is_leap :: "int \<Rightarrow> bool" where
  "is_leap y = (y mod 4 = 0 \<and> (y mod 100 \<noteq> 0 \<or> y mod 400 = 0))"

definition DAYS_IN_MONTH :: "int list" where
  "DAYS_IN_MONTH = [-1, 31, 28, 31, 30, 31, 30, 31, 31, 30, 31, 30, 31]"

definition DAYS_BEFORE_MONTH :: "int list" where
  "DAYS_BEFORE_MONTH = [-1, 0, 31, 59, 90, 120, 151, 181, 212, 243, 273, 304, 334]"

definition days_before_year :: "int \<Rightarrow> int" where
  "days_before_year year =
     (let y = year - 1 in y * 365 + y div 4 - y div 100 + y div 400)"

definition days_in_month :: "int \<Rightarrow> int \<Rightarrow> int" where
  "days_in_month year month =
     (if month = 2 \<and> is_leap year then 29 else DAYS_IN_MONTH ! nat month)"

definition days_before_month :: "int \<Rightarrow> int \<Rightarrow> int" where
  "days_before_month year month =
     DAYS_BEFORE_MONTH ! nat month + (if month > 2 \<and> is_leap year then 1 else 0)"

definition ymd2ord :: "int \<Rightarrow> int \<Rightarrow> int \<Rightarrow> int" where
  "ymd2ord year month day = days_before_year year + days_before_month year month + day"

definition ord2ymd :: "int \<Rightarrow> int \<times> int \<times> int" where
  "ord2ymd ordinal =
     (let n = ordinal - 1;
          n400 = n div 146097; na = n mod 146097;
          n100 = na div 36524; nb = na mod 36524;
          n4 = nb div 1461; nc = nb mod 1461;
          n1 = nc div 365; nd = nc mod 365;
          year = n400 * 400 + 1 + n100 * 100 + n4 * 4 + n1
      in if n1 = 4 \<or> n100 = 4 then (year - 1, 12, 31)
         else
           let leapyear = (n1 = 3 \<and> (n4 \<noteq> 24 \<or> n100 = 3));
               month = (nd + 50) div 32;
               preceding = DAYS_BEFORE_MONTH ! nat month
                           + (if month > 2 \<and> leapyear then 1 else 0)
           in if preceding > nd
              then (let month' = month - 1;
                        preceding' = preceding
                          - (DAYS_IN_MONTH ! nat month'
                             + (if month' = 2 \<and> leapyear then 1 else 0))
                    in (year, month', nd - preceding' + 1))
              else (year, month, nd - preceding + 1))"

definition dt_year :: "datetime \<Rightarrow> int" where
  "dt_year d = fst (ord2ymd (dt_ordinal d))"

definition weekday :: "datetime \<Rightarrow> int" where
  \<comment> \<open>\<^verbatim>\<open>d.weekday()\<close>: Monday is 0\<close>
  "weekday d = (dt_ordinal d + 6) mod 7"

definition midnight :: "datetime \<Rightarrow> datetime" where
  \<comment> \<open>\<^verbatim>\<open>d.replace(hour=0, minute=0, second=0, microsecond=0)\<close>\<close>
  "midnight d = d\<lparr>dt_hour := 0, dt_minute := 0, dt_second := 0, dt_microsecond := 0\<rparr>"

definition replace_date :: "datetime \<Rightarrow> int \<Rightarrow> int \<Rightarrow> int \<Rightarrow> datetime option" where
  \<comment> \<open>\<^verbatim>\<open>d.replace(year=y, month=m, day=dd, hour=0, minute=0, second=0, microsecond=0)\<close>;
      \<open>None\<close> is the ValueError of a date that does not exist\<close>
  "replace_date d y m dd =
     (if 1 \<le> y \<and> y \<le> 9999 \<and> 1 \<le> m \<and> m \<le> 12 \<and> 1 \<le> dd \<and> dd \<le> days_in_month y m
      then Some (midnight (d\<lparr>dt_ordinal := ymd2ord y m dd\<rparr>))
      else None)"

definition add_days :: "datetime \<Rightarrow> int \<Rightarrow> datetime option" where
  \<comment> \<open>\<^verbatim>\<open>d + timedelta(days=k)\<close>; \<open>None\<close> is the OverflowError of a date outside
      the years 1 to 9999\<close>
  "add_days d k =
     (if 1 \<le> dt_ordinal d + k \<and> dt_ordinal d + k \<le> MAXORDINAL
      then Some (d\<lparr>dt_ordinal := dt_ordinal d + k\<rparr>)
      else None)"

definition fmt04d :: "int \<Rightarrow> string" where
  \<comment> \<open>a year of four digits, as in the store's \<^verbatim>\<open>YYYY-MM-DD\<close>\<close>
  "fmt04d y = replicate (4 - length (show_nat (nat y))) (CHR ''0'') @ show_nat (nat y)"

definition strftime_date :: "datetime \<Rightarrow> string" where
  \<comment> \<open>\<^verbatim>\<open>d.strftime("%Y-%m-%d")\<close>\<close>
  "strftime_date d =
     (case ord2ymd (dt_ordinal d) of
        (y, m, dd) \<Rightarrow> fmt04d y @ ''-'' @ fmt02d m @ ''-'' @ fmt02d dd)"

definition strftime_hm :: "datetime \<Rightarrow> string" where
  \<comment> \<open>\<^verbatim>\<open>d.strftime("%H:%M")\<close>\<close>
  "strftime_hm d = fmt02d (dt_hour d) @ '':'' @ fmt02d (dt_minute d)"

section \<open>The date normalizer\<close>

definition WEEKDAY_NAMES :: "string list" where
  "WEEKDAY_NAMES = [''Mon'', ''Tue'', ''Wed'', ''Thu'', ''Fri'', ''Sat'', ''Sun'']"

definition DAYPARTS :: "(string \<times> (string \<times> string)) list" where
  \<comment> \<open>the dictionary, in its order of insertion\<close>
  "DAYPARTS =
     [(''morning'', (''00:00'', ''11:59'')),
      (''afternoon'', (''12:00'', ''16:59'')),
      (''evening'', (''17:00'', ''20:59'')),
      (''night'', (''21:00'', ''23:59''))]"

fun extract_daypart_loop ::
  "(string \<times> (string \<times> string)) list \<Rightarrow> string \<Rightarrow> string \<times> (string \<times> string) option" where
  "extract_daypart_loop [] s = (s, None)"
| "extract_daypart_loop ((k, rng) # rest) s =
     (if py_in k s then (strip (py_replace k [] s), Some rng)
      else extract_daypart_loop rest s)"

definition extract_daypart :: "string \<Rightarrow> string \<times> (string \<times> string) option" where
  \<comment> \<open>the argument \<^verbatim>\<open>None\<close> is the empty string: the source reads \<^verbatim>\<open>s or ""\<close>\<close>
  "extract_daypart s = extract_daypart_loop DAYPARTS (lower (strip s))"

fun index_of :: "'a \<Rightarrow> 'a list \<Rightarrow> nat option" where
  "index_of x [] = None"
| "index_of x (y # ys) =
     (if x = y then Some 0 else map_option Suc (index_of x ys))"

definition weekday_index :: "string \<Rightarrow> nat option" where
  \<comment> \<open>the local function \<^verbatim>\<open>_weekday_index\<close>\<close>
  "weekday_index name = index_of (capitalize (take 3 name)) WEEKDAY_NAMES"

definition parse_iso :: "string \<Rightarrow> datetime \<Rightarrow> datetime option" where
  \<comment> \<open>the first \<^verbatim>\<open>try\<close> block of \<^verbatim>\<open>parse_natural_date\<close>; \<open>None\<close> when its condition
      is false or an exception was caught, and the function goes on\<close>
  "parse_iso s anchor =
     (if length s = 10 \<and> s ! 4 = CHR ''-'' \<and> s ! 7 = CHR ''-''
      then (case split_on (CHR ''-'') s of
              [y, m, d] \<Rightarrow>
                (case (py_int y, py_int m, py_int d) of
                   (Some yv, Some mv, Some dv) \<Rightarrow> replace_date anchor yv mv dv
                 | _ \<Rightarrow> None)
            | _ \<Rightarrow> None)
      else None)"

definition parse_mmdd :: "string \<Rightarrow> datetime \<Rightarrow> datetime option" where
  \<comment> \<open>the second \<^verbatim>\<open>try\<close> block\<close>
  "parse_mmdd s anchor =
     (if py_in ''/'' s
      then (case split_on (CHR ''/'') s of
              [m, d] \<Rightarrow>
                (case (py_int m, py_int d) of
                   (Some mv, Some dv) \<Rightarrow> replace_date anchor (dt_year anchor) mv dv
                 | _ \<Rightarrow> None)
            | _ \<Rightarrow> None)
      else None)"

definition shift_days :: "datetime \<Rightarrow> int \<Rightarrow> py_error + datetime option" where
  \<comment> \<open>\<^verbatim>\<open>return (anchor + timedelta(days=delta)).replace(hour=0, ...)\<close>: the addition
      is outside every \<^verbatim>\<open>try\<close>, so its OverflowError leaves the function\<close>
  "shift_days anchor delta =
     (case add_days anchor delta of
        None \<Rightarrow> Inl OverflowError
      | Some d \<Rightarrow> Inr (Some (midnight d)))"

definition parse_weekday_forms :: "string \<Rightarrow> datetime \<Rightarrow> py_error + datetime option" where
  \<comment> \<open>the end of \<^verbatim>\<open>parse_natural_date\<close>, from \<^verbatim>\<open>toks = s.split()\<close> on: a single
      week day, then \<^verbatim>\<open>next\<close> and a week day, then \<^verbatim>\<open>None\<close>\<close>
  "parse_weekday_forms s anchor =
     (let toks = split_ws s
      in case (if length toks = 1 then weekday_index (toks ! 0) else None) of
           Some day_idx \<Rightarrow> shift_days anchor ((int day_idx - weekday anchor) mod 7)
         | None \<Rightarrow>
             (case (if length toks = 2 \<and> toks ! 0 = ''next''
                    then weekday_index (toks ! 1) else None) of
                Some day_idx \<Rightarrow>
                  shift_days anchor
                    (let delta = (int day_idx - weekday anchor) mod 7
                     in if delta = 0 then 7 else delta)
              | None \<Rightarrow> Inr None))"

definition parse_natural_date :: "string \<Rightarrow> datetime \<Rightarrow> py_error + datetime option" where
  \<comment> \<open>\<open>Inr None\<close> is the returned \<^verbatim>\<open>None\<close>, \<open>Inl e\<close> an exception that leaves the
      function\<close>
  "parse_natural_date phrase anchor =
     (let s = lower (strip phrase)
      in if s = [] then Inr None
         else
           (case parse_iso s anchor of
              Some d \<Rightarrow> Inr (Some d)
            | None \<Rightarrow>
                (case parse_mmdd s anchor of
                   Some d \<Rightarrow> Inr (Some d)
                 | None \<Rightarrow>
                     if s \<in> set [''today'', ''todays'', ''to day'']
                     then Inr (Some (midnight anchor))
                     else if s \<in> set [''tomorrow'', ''tmrw'', ''tmr'']
                     then shift_days anchor 1
                     else parse_weekday_forms s anchor)))"

section \<open>Configuration, catalogue and stores\<close>

text \<open>
  The JSON files are the state of the engine.  \<^verbatim>\<open>working_hours.json\<close> and
  \<^verbatim>\<open>services.json\<close> are only read; \<^verbatim>\<open>calendar.json\<close> and \<^verbatim>\<open>bookings.json\<close>
  are written by a booking.  Reading and writing a file is taken to succeed, and a
  read after a write sees it (the source clears its cache on every write).  A
  dictionary is a map; a key that is absent is \<open>None\<close>.
\<close>

record working_hours =
  wh_slot_interval_minutes :: "int option"
  wh_weekly_hours :: "string \<rightharpoonup> string list"
  wh_exceptions :: "string \<rightharpoonup> string list"

record service =
  svc_name :: string
  svc_duration :: "int option"

record booking_record =
  br_date :: string
  br_start :: string
  br_end :: string
  br_service :: "string option"
  br_duration_minutes :: int
  br_client_name :: string
  br_client_phone :: string
  br_client_email :: string
  br_created_at :: datetime

text \<open>
  What a call reads but does not change: the two configuration files, the clock (one
  instant for the whole call) and the order in which Python iterates over a
  \<^verbatim>\<open>set\<close> of strings, which the language leaves open.
\<close>

record env =
  env_working :: working_hours
  env_services :: "service list"
  env_now :: datetime
  env_set_order :: "string list \<Rightarrow> string list"

record store =
  st_appointments :: "string \<rightharpoonup> string list"
  st_bookings :: "booking_record list"


section \<open>Slots\<close>

definition range_minutes :: "string \<Rightarrow> (int \<times> int) option" where
  \<comment> \<open>the head of the \<^verbatim>\<open>try\<close> block of each loop over ranges:
      \<^verbatim>\<open>a, b = r.split("-")\<close>, then \<^verbatim>\<open>_time_to_minutes\<close> of both; \<open>None\<close> when one
      of the three raises, and the loop goes on with the next range\<close>
  "range_minutes r =
     (case split_on (CHR ''-'') r of
        [a, b] \<Rightarrow>
          (case time_to_minutes a of
             None \<Rightarrow> None
           | Some am \<Rightarrow>
               (case time_to_minutes b of
                  None \<Rightarrow> None
                | Some bm \<Rightarrow> Some (am, bm)))
      | _ \<Rightarrow> None)"

partial_function (option) slot_loop ::
  "int \<Rightarrow> int \<Rightarrow> int \<Rightarrow> int \<Rightarrow> string list \<Rightarrow> string list option" where
  \<comment> \<open>the \<^verbatim>\<open>while\<close> loop of \<^verbatim>\<open>_expand_ranges_to_slots\<close>; it does not return when
      the step is not positive and the first candidate fits\<close>
  "slot_loop t service_min end_m slot_interval slots =
     (if t + service_min \<le> end_m
      then slot_loop (t + slot_interval) service_min end_m slot_interval
             (slots @ [minutes_to_time t])
      else Some slots)"

declare slot_loop.simps [code]

fun expand_ranges_loop ::
  "string list \<Rightarrow> int \<Rightarrow> int \<Rightarrow> string list \<Rightarrow> string list option" where
  "expand_ranges_loop [] slot_interval service_min slots = Some slots"
| "expand_ranges_loop (r # rs) slot_interval service_min slots =
     (case range_minutes r of
        None \<Rightarrow> expand_ranges_loop rs slot_interval service_min slots
      | Some (start, end_m) \<Rightarrow>
          (case slot_loop start service_min end_m slot_interval slots of
             None \<Rightarrow> None
           | Some slots' \<Rightarrow> expand_ranges_loop rs slot_interval service_min slots'))"

definition expand_ranges_to_slots :: "string list \<Rightarrow> int \<Rightarrow> int \<Rightarrow> string list option" where
  \<comment> \<open>\<^verbatim>\<open>_expand_ranges_to_slots\<close>; \<open>None\<close> when a loop does not return\<close>
  "expand_ranges_to_slots ranges slot_interval service_min =
     expand_ranges_loop ranges slot_interval service_min []"

fun subtract_conflict :: "int \<Rightarrow> int \<Rightarrow> string list \<Rightarrow> bool" where
  \<comment> \<open>the inner loop of \<^verbatim>\<open>_subtract_appointments\<close>: the value of \<^verbatim>\<open>conflict\<close>\<close>
  "subtract_conflict start end_m [] = False"
| "subtract_conflict start end_m (r # rs) =
     (case range_minutes r of
        None \<Rightarrow> subtract_conflict start end_m rs
      | Some (rs_m, re_m) \<Rightarrow>
          if start < re_m \<and> end_m > rs_m then True
          else subtract_conflict start end_m rs)"

fun subtract_appointments :: "string list \<Rightarrow> string list \<Rightarrow> int \<Rightarrow> py_error + string list" where
  \<comment> \<open>\<^verbatim>\<open>_subtract_appointments\<close>; \<^verbatim>\<open>_time_to_minutes(s)\<close> is outside the
      \<^verbatim>\<open>try\<close>, so a slot that is no time raises\<close>
  "subtract_appointments [] taken_ranges service_min = Inr []"
| "subtract_appointments (s # slots) taken_ranges service_min =
     (case time_to_minutes s of
        None \<Rightarrow> Inl ValueError
      | Some start \<Rightarrow>
          (case subtract_appointments slots taken_ranges service_min of
             Inl e \<Rightarrow> Inl e
           | Inr keep \<Rightarrow>
               Inr (if subtract_conflict start (start + service_min) taken_ranges
                    then keep else s # keep)))"

fun filter_slots :: "(int \<Rightarrow> bool) \<Rightarrow> string list \<Rightarrow> py_error + string list" where
  \<comment> \<open>a comprehension \<^verbatim>\<open>[s for s in free_slots if p(_time_to_minutes(s))]\<close>\<close>
  "filter_slots p [] = Inr []"
| "filter_slots p (s # slots) =
     (case time_to_minutes s of
        None \<Rightarrow> Inl ValueError
      | Some m \<Rightarrow>
          (case filter_slots p slots of
             Inl e \<Rightarrow> Inl e
           | Inr keep \<Rightarrow> Inr (if p m then s # keep else keep)))"

fun get_service_minutes_loop :: "service list \<Rightarrow> string \<Rightarrow> int" where
  "get_service_minutes_loop [] name = 30"
| "get_service_minutes_loop (s # services) name =
     (if lower (svc_name s) = lower (strip name)
      then (case svc_duration s of None \<Rightarrow> 30 | Some dur \<Rightarrow> dur)
      else get_service_minutes_loop services name)"

definition get_service_minutes :: "env \<Rightarrow> string option \<Rightarrow> int" where
  \<comment> \<open>\<^verbatim>\<open>_get_service_minutes\<close>; the catalogue's durations are integers, so
      \<^verbatim>\<open>int(dur)\<close> returns\<close>
  "get_service_minutes e name =
     (case name of
        None \<Rightarrow> 30
      | Some n \<Rightarrow> if n = [] then 30 else get_service_minutes_loop (env_services e) n)"

definition get_taken_ranges_from_calendar :: "store \<Rightarrow> string \<Rightarrow> string list" where
  "get_taken_ranges_from_calendar st date_str =
     (case st_appointments st date_str of None \<Rightarrow> [] | Some rs \<Rightarrow> rs)"

section \<open>Hours and availability\<close>





definition opt_string :: "string option \<Rightarrow> string" where
  \<comment> \<open>\<^verbatim>\<open>x or ""\<close> for an optional string\<close>
  "opt_string x = (case x of None \<Rightarrow> [] | Some s \<Rightarrow> s)"


datatype avail_result =
    AvailError
    \<comment> \<open>\<^verbatim>\<open>{"error": "Could not parse date.", "available": [], "date": None}\<close>\<close>
  | AvailClosed string string
    \<comment> \<open>date, weekday; \<^verbatim>\<open>"available": [], "closed": True\<close>\<close>
  | AvailOpen string string "string option" int "string list" nat
    \<comment> \<open>date, weekday, service, duration_minutes, available, total_available; no key
        \<^verbatim>\<open>closed\<close>\<close>

fun avail_available :: "avail_result \<Rightarrow> string list" where
  \<comment> \<open>\<^verbatim>\<open>avail.get("available", [])\<close>\<close>
  "avail_available AvailError = []"
| "avail_available (AvailClosed d w) = []"
| "avail_available (AvailOpen d w s m available tot) = available"

definition daypart_filter ::
  "(string \<times> string) option \<Rightarrow> int \<Rightarrow> string list \<Rightarrow> py_error + string list" where
  \<comment> \<open>the block \<^verbatim>\<open>if daypart: ...\<close> of \<^verbatim>\<open>check_availability\<close>\<close>
  "daypart_filter daypart service_min free_slots =
     (case daypart of
        None \<Rightarrow> Inr free_slots
      | Some (a, b) \<Rightarrow>
          (case (time_to_minutes a, time_to_minutes b) of
             (Some start_m, Some end_m) \<Rightarrow>
               filter_slots (\<lambda>m. m \<ge> start_m \<and> m + service_min \<le> end_m) free_slots
           | _ \<Rightarrow> Inl ValueError))"

definition today_filter ::
  "env \<Rightarrow> string \<Rightarrow> int \<Rightarrow> string list \<Rightarrow> py_error + string list" where
  \<comment> \<open>the block \<^verbatim>\<open>if date_str == now_local.strftime("%Y-%m-%d"): ...\<close>\<close>
  "today_filter e date_str service_min free_slots =
     (if date_str = strftime_date (env_now e)
      then (case time_to_minutes (strftime_hm (env_now e)) of
              None \<Rightarrow> Inl ValueError
            | Some now_m \<Rightarrow> filter_slots (\<lambda>m. m + service_min > now_m) free_slots)
      else Inr free_slots)"

definition open_ranges :: "working_hours \<Rightarrow> string \<Rightarrow> string \<Rightarrow> string list" where
  \<comment> \<open>\<^verbatim>\<open>ranges = weekly_hours.get(weekday, [])\<close>, replaced by the entry of
      \<^verbatim>\<open>exceptions\<close> when the date is one of its keys\<close>
  "open_ranges wh date_str wd =
     (let weekly = (case wh_weekly_hours wh wd of None \<Rightarrow> [] | Some r \<Rightarrow> r)
      in case wh_exceptions wh date_str of None \<Rightarrow> weekly | Some r \<Rightarrow> r)"

definition availability_open ::
  "env \<Rightarrow> store \<Rightarrow> string \<Rightarrow> string \<Rightarrow> string option \<Rightarrow> int \<Rightarrow> (string \<times> string) option
     \<Rightarrow> string list \<Rightarrow> (py_error + avail_result) option" where
  \<comment> \<open>\<^verbatim>\<open>check_availability\<close> from \<^verbatim>\<open>service_min = ...\<close> on, for a day with ranges\<close>
  "availability_open e st date_str wd service_name limit daypart ranges =
     (let slot_interval =
            (case wh_slot_interval_minutes (env_working e) of None \<Rightarrow> 15 | Some i \<Rightarrow> i);
          service_min = get_service_minutes e service_name
      in case expand_ranges_to_slots ranges slot_interval service_min of
           None \<Rightarrow> None
         | Some all_slots \<Rightarrow>
             (case subtract_appointments all_slots
                     (get_taken_ranges_from_calendar st date_str) service_min of
                Inl err \<Rightarrow> Some (Inl err)
              | Inr free0 \<Rightarrow>
                  (case daypart_filter daypart service_min free0 of
                     Inl err \<Rightarrow> Some (Inl err)
                   | Inr free1 \<Rightarrow>
                       (case today_filter e date_str service_min free1 of
                          Inl err \<Rightarrow> Some (Inl err)
                        | Inr free_slots \<Rightarrow>
                            Some (Inr (AvailOpen date_str wd service_name service_min
                              (take (nat (max 1 limit)) free_slots)
                              (length free_slots)))))))"

definition availability_on ::
  "env \<Rightarrow> store \<Rightarrow> datetime \<Rightarrow> string option \<Rightarrow> int \<Rightarrow> (string \<times> string) option
     \<Rightarrow> (py_error + avail_result) option" where
  \<comment> \<open>\<^verbatim>\<open>check_availability\<close> from \<^verbatim>\<open>date_str = ...\<close> on, for the date it
      resolved\<close>
  "availability_on e st date_dt service_name limit daypart =
     (let date_str = strftime_date date_dt;
          wd = WEEKDAY_NAMES ! nat (weekday date_dt);
          ranges = open_ranges (env_working e) date_str wd
      in if ranges = [] then Some (Inr (AvailClosed date_str wd))
         else availability_open e st date_str wd service_name limit daypart ranges)"

definition check_availability ::
  "env \<Rightarrow> store \<Rightarrow> string option \<Rightarrow> string option \<Rightarrow> int \<Rightarrow> (string \<times> string) option
     \<Rightarrow> (py_error + avail_result) option" where
  \<comment> \<open>\<open>None\<close>: the slot loop does not return; \<open>Some (Inl e)\<close>: the exception \<open>e\<close>
      leaves the function\<close>
  "check_availability e st date_phrase service_name limit daypart =
     (case extract_daypart (opt_string date_phrase) of
        (cleaned_phrase, embedded_daypart) \<Rightarrow>
          (case parse_natural_date (py_or cleaned_phrase ''today'') (env_now e) of
             Inl err \<Rightarrow> Some (Inl err)
           | Inr None \<Rightarrow> Some (Inr AvailError)
           | Inr (Some date_dt) \<Rightarrow>
               availability_on e st date_dt service_name limit
                 (if embedded_daypart \<noteq> None \<and> daypart = None
                  then embedded_daypart else daypart)))"

section \<open>Booking\<close>

definition sort_key_of :: "string \<Rightarrow> int" where
  \<comment> \<open>the local function \<^verbatim>\<open>_sort_key\<close>\<close>
  "sort_key_of rr =
     (case split_on (CHR ''-'') rr of
        [ss, ee] \<Rightarrow> (case time_to_minutes ss of None \<Rightarrow> 0 | Some k \<Rightarrow> k)
      | _ \<Rightarrow> 0)"

fun append_collides :: "int \<Rightarrow> int \<Rightarrow> string list \<Rightarrow> bool" where
  \<comment> \<open>the collision check of \<^verbatim>\<open>_append_appointment\<close>: true when the loop returns
      \<^verbatim>\<open>False, "That time was just taken. ..."\<close>\<close>
  "append_collides start_m end_m [] = False"
| "append_collides start_m end_m (r # taken) =
     (case range_minutes r of
        None \<Rightarrow> append_collides start_m end_m taken
      | Some (rs_m, re_m) \<Rightarrow>
          if start_m < re_m \<and> end_m > rs_m then True
          else append_collides start_m end_m taken)"

definition append_appointment ::
  "env \<Rightarrow> store \<Rightarrow> string \<Rightarrow> string \<Rightarrow> int \<Rightarrow> (bool \<times> string) \<times> store" where
  \<comment> \<open>\<^verbatim>\<open>_append_appointment\<close>, without the client's name, phone and email, which it
      does not read; the store it returns is the calendar file after the call\<close>
  "append_appointment e st date_str start_hhmm duration_min =
     (case time_to_minutes start_hhmm of
        None \<Rightarrow> ((False, ''Invalid start time format. Use HH:MM.''), st)
      | Some start_m \<Rightarrow>
          (let end_minutes = start_m + duration_min;
               end_hhmm = minutes_to_time end_minutes;
               taken = get_taken_ranges_from_calendar st date_str
           in if append_collides start_m end_minutes taken
              then ((False, ''That time was just taken. Please pick another slot.''), st)
              else
                (let old = (case st_appointments st date_str of None \<Rightarrow> [] | Some rs \<Rightarrow> rs);
                     new_range = start_hhmm @ ''-'' @ end_hhmm;
                     appended = (if new_range \<in> set old then old else old @ [new_range]);
                     sorted_ranges = sort_key sort_key_of (env_set_order e appended)
                 in ((True, ''Booked '' @ date_str @ '' '' @ start_hhmm @ ''-'' @ end_hhmm @ ''.''),
                     st\<lparr>st_appointments := (st_appointments st)(date_str \<mapsto> sorted_ranges)\<rparr>))))"

definition append_booking_record ::
  "env \<Rightarrow> store \<Rightarrow> string \<Rightarrow> string \<Rightarrow> string \<Rightarrow> string option \<Rightarrow> int
     \<Rightarrow> string \<Rightarrow> string \<Rightarrow> string \<Rightarrow> store" where
  "append_booking_record e st date_str start_hhmm end_hhmm service_name duration_min
       client_name phone email =
     st\<lparr>st_bookings := st_bookings st @
       [\<lparr>br_date = date_str, br_start = start_hhmm, br_end = end_hhmm,
         br_service = service_name, br_duration_minutes = duration_min,
         br_client_name = client_name, br_client_phone = phone, br_client_email = email,
         br_created_at = env_now e\<rparr>]\<rparr>"

datatype book_result =
    BookBadTime
    \<comment> \<open>\<^verbatim>\<open>{"success": False, "error": "Please enter time as HH:MM ..."}\<close>\<close>
  | BookClosed
    \<comment> \<open>\<^verbatim>\<open>{"success": False, "error": "The salon is closed that day."}\<close>\<close>
  | BookUnavailable "string list" "string option" "string option" int
    \<comment> \<open>alternatives, date, service, duration_minutes; \<^verbatim>\<open>"success": False\<close> and the
        error that the start time is not available\<close>
  | BookJustTaken string "string list" string "string option" int
    \<comment> \<open>error (the message of \<^verbatim>\<open>_append_appointment\<close>), alternatives, date, service,
        duration_minutes; \<^verbatim>\<open>"success": False\<close>\<close>
  | BookConfirmed string string string "string option" int string
    \<comment> \<open>date, start_time, end_time, service, duration_minutes, client_name;
        \<^verbatim>\<open>"success": True\<close>\<close>

fun book_success :: "book_result \<Rightarrow> bool" where
  \<comment> \<open>the key \<^verbatim>\<open>success\<close>\<close>
  "book_success (BookConfirmed d s t svc m c) = True"
| "book_success _ = False"

fun book_alternatives :: "book_result \<Rightarrow> string list option" where
  \<comment> \<open>the key \<^verbatim>\<open>alternatives\<close>; \<open>None\<close> when the result has no such key\<close>
  "book_alternatives (BookUnavailable alts d svc m) = Some alts"
| "book_alternatives (BookJustTaken msg alts d svc m) = Some alts"
| "book_alternatives _ = None"

definition commit_booking ::
  "env \<Rightarrow> store \<Rightarrow> string \<Rightarrow> string \<Rightarrow> string option \<Rightarrow> int \<Rightarrow> string \<Rightarrow> string \<Rightarrow> string
     \<Rightarrow> ((py_error + book_result) \<times> store) option" where
  \<comment> \<open>\<^verbatim>\<open>book_appointment\<close> from the call of \<^verbatim>\<open>_append_appointment\<close> on\<close>
  "commit_booking e st date start_time_norm service_name duration_min client_name phone email =
     (case append_appointment e st date start_time_norm duration_min of
        ((ok, msg), st') \<Rightarrow>
          if \<not> ok
          then (case check_availability e st' (Some date) service_name 8 None of
                  None \<Rightarrow> None
                | Some (Inl err) \<Rightarrow> Some (Inl err, st')
                | Some (Inr fresh) \<Rightarrow>
                    Some (Inr (BookJustTaken msg (avail_available fresh) date service_name
                                 duration_min), st'))
          else (case time_to_minutes start_time_norm of
                  None \<Rightarrow> Some (Inl ValueError, st')
                | Some start_m \<Rightarrow>
                    (let end_time = minutes_to_time (start_m + duration_min)
                     in Some (Inr (BookConfirmed date start_time_norm end_time service_name
                                     duration_min client_name),
                              append_booking_record e st' date start_time_norm end_time
                                service_name duration_min client_name phone email))))"

definition book_appointment ::
  "env \<Rightarrow> store \<Rightarrow> string \<Rightarrow> string \<Rightarrow> string option \<Rightarrow> string \<Rightarrow> string \<Rightarrow> string
     \<Rightarrow> ((py_error + book_result) \<times> store) option" where
  \<comment> \<open>the result and the files after the call; \<open>None\<close>: the call does not return.  The
      three shapes of \<^verbatim>\<open>avail\<close> are told apart by their keys: only a closed day has
      \<^verbatim>\<open>closed\<close>; an unparsed date has an empty \<^verbatim>\<open>available\<close> and the date
      \<^verbatim>\<open>None\<close>, so the start time is not in it\<close>
  "book_appointment e st date_str start_time service_name client_name phone email =
     (let cleaned_date = fst (extract_daypart date_str);
          date_str' = py_or cleaned_date date_str
      in case normalize_time_to_hhmm start_time of
           None \<Rightarrow> Some (Inr BookBadTime, st)
         | Some start_time_norm \<Rightarrow>
             (let duration_min = get_service_minutes e service_name
              in case check_availability e st (Some date_str') service_name 10000 None of
                   None \<Rightarrow> None
                 | Some (Inl err) \<Rightarrow> Some (Inl err, st)
                 | Some (Inr (AvailClosed d w)) \<Rightarrow> Some (Inr BookClosed, st)
                 | Some (Inr AvailError) \<Rightarrow>
                     Some (Inr (BookUnavailable [] None service_name duration_min), st)
                 | Some (Inr (AvailOpen date w svc m free_slots tot)) \<Rightarrow>
                     if start_time_norm \<notin> set free_slots
                     then Some (Inr (BookUnavailable (take 10 free_slots) (Some date)
                                       service_name duration_min), st)
                     else commit_booking e st date start_time_norm service_name duration_min
                            client_name phone email))"

section \<open>Auxiliary definitions for the proofs\<close>

text \<open>
  The stages of \<^const>\<open>normalize_time_to_hhmm\<close>, named so that each can be reasoned
  about on its own: the cleaned text, the hour and minute of a token, the hour of the
  24-hour clock, and the final range check.
\<close>

definition token_hm :: "string \<Rightarrow> (int \<times> int) option" where
  "token_hm t =
     (if isdigit t then Some (digits_value t, 0)
      else if py_in '':'' t
      then (let parts = split_on (CHR '':'') t
            in if length parts \<noteq> 2 \<or> \<not> isdigit (parts ! 0) \<or> \<not> isdigit (parts ! 1)
               then None
               else Some (digits_value (parts ! 0), digits_value (parts ! 1)))
      else None)"








text \<open>A small salon for concrete checks: open on Saturdays from 10 to 12 with a slot every 30 minutes, with one
  booking on Saturday 2025-10-18; the clock reads Thursday 2025-10-16, 08:05.\<close>

definition wit_store :: store where
  "wit_store = \<lparr>st_appointments = Map.empty(''2025-10-18'' \<mapsto> [''10:00-10:30'']), st_bookings = []\<rparr>"

definition wit_env :: env where
  "wit_env = \<lparr>env_working = \<lparr>wh_slot_interval_minutes = Some 30,
       wh_weekly_hours = Map.empty(''Sat'' \<mapsto> [''10:00-12:00'']), wh_exceptions = Map.empty\<rparr>,
     env_services = [\<lparr>svc_name = ''Basic Haircut'', svc_duration = Some 30\<rparr>],
     env_now = \<lparr>dt_ordinal = 739540, dt_hour = 8, dt_minute = 5, dt_second = 0, dt_microsecond = 0\<rparr>,
     env_set_order = remdups\<rparr>"




text \<open>Monday 2025-10-20, 09:30.\<close>

definition monday_anchor :: datetime where
  "monday_anchor = \<lparr>dt_ordinal = 739544, dt_hour = 9, dt_minute = 30, dt_second = 0, dt_microsecond = 0\<rparr>"

text \<open>
  The distance in days that the source computes for \<^verbatim>\<open>next\<close> and the week day with
  index \<open>i\<close>: \<^verbatim>\<open>((day_idx - anchor.weekday()) % 7) or 7\<close>.
\<close>

definition next_delta :: "nat \<Rightarrow> datetime \<Rightarrow> int" where
  "next_delta i anchor =
     (let delta = (int i - weekday anchor) mod 7 in if delta = 0 then 7 else delta)"



fun avail_closed :: "avail_result \<Rightarrow> bool" where
  "avail_closed (AvailClosed d w) = True"
| "avail_closed _ = False"


text \<open>Saturday 2025-10-18, and the salon with that date as an exception without
  ranges.\<close>

definition saturday :: datetime where
  "saturday = \<lparr>dt_ordinal = 739542, dt_hour = 0, dt_minute = 0, dt_second = 0, dt_microsecond = 0\<rparr>"

definition holiday_env :: env where
  "holiday_env =
     wit_env\<lparr>env_working := (env_working wit_env)\<lparr>wh_exceptions := Map.empty(''2025-10-18'' \<mapsto> [])\<rparr>\<rparr>"


text \<open>The same salon with the clock at Saturday 2025-10-18, 08:05.\<close>

definition saturday_env :: env where
  "saturday_env = wit_env\<lparr>env_now := saturday\<lparr>dt_hour := 8, dt_minute := 5\<rparr>\<rparr>"

text \<open>
  The date argument of \<^verbatim>\<open>book_appointment\<close> after its first lines
  (\<^verbatim>\<open>date_str = cleaned_date or date_str\<close>), and the phrase that
  \<^verbatim>\<open>check_availability\<close> then hands to \<^verbatim>\<open>parse_natural_date\<close>: the daypart is taken
  out once more, and an empty rest is replaced by \<^verbatim>\<open>today\<close>.
\<close>

definition booking_date :: "string \<Rightarrow> string" where
  "booking_date d = py_or (fst (extract_daypart d)) d"








section \<open>Text and numbers\<close>

lemma not_digit_chars [simp]:
  "\<not> is_digit (CHR ''-'')" "\<not> is_digit (CHR '':'')" "\<not> is_digit (CHR ''_'')"
  "\<not> is_digit (CHR ''.'')" "\<not> is_digit (CHR '' '')" "\<not> is_digit (CHR ''+'')"
  "\<not> is_digit (CHR ''m'')" "\<not> is_digit (CHR ''/'')"
  by (simp_all add: is_digit_def)

lemma dropWhile_id: "xs \<noteq> [] \<Longrightarrow> \<not> P (hd xs) \<Longrightarrow> dropWhile P xs = xs"
  by (cases xs) auto







lemma digits_value_snoc:
  "digits_value (xs @ [c]) = 10 * digits_value xs + (int (of_char c) - 48)"
  by (simp add: digits_value_def)





lemma split_where_nonempty: "split_where p s \<noteq> []"
  by (induction s) (auto split: list.splits)

lemma split_where_none: "\<forall>x\<in>set a. \<not> p x \<Longrightarrow> split_where p a = [a]"
  by (induction a) auto


lemma length_split_where: "length (split_where p s) = Suc (length (filter p s))"
  by (induction s) (auto split: list.splits simp: split_where_nonempty)

lemma split_on_none: "c \<notin> set a \<Longrightarrow> split_on c a = [a]"
  unfolding split_on_def by (rule split_where_none) auto


lemma length_split_on: "length (split_on c s) = Suc (count_list s c)"
  unfolding split_on_def length_split_where
  by (induction s) auto

lemma strip_id: "s \<noteq> [] \<Longrightarrow> \<not> is_space (hd s) \<Longrightarrow> \<not> is_space (last s) \<Longrightarrow> strip s = s"
proof -
  assume a: "s \<noteq> []" "\<not> is_space (hd s)" "\<not> is_space (last s)"
  have "dropWhile is_space s = s" using a by (simp add: dropWhile_id)
  moreover have "dropWhile is_space (rev s) = rev s"
    using a by (intro dropWhile_id) (simp_all add: hd_rev)
  ultimately show ?thesis by (simp add: strip_def)
qed







section \<open>The time normalizer\<close>


lemma digits_value_nonneg: "list_all is_digit s \<Longrightarrow> 0 \<le> digits_value s"
proof (induction s rule: rev_induct)
  case Nil
  then show ?case by (simp add: digits_value_def)
next
  case (snoc c s)
  then show ?case by (simp add: digits_value_snoc is_digit_def)
qed



lemma split_on_two: "split_on c t = [a, b] \<Longrightarrow> t = a @ c # b"
proof (induction t arbitrary: a)
  case Nil
  then show ?case by (simp add: split_on_def)
next
  case (Cons x t)
  show ?case
  proof (cases "x = c")
    case True
    with Cons.prems have "a = []" "split_on c t = [b]" by (simp_all add: split_on_def)
    moreover from \<open>split_on c t = [b]\<close> have "count_list t c = 0"
      using length_split_on [of c t] by simp
    then have "c \<notin> set t" by (simp add: count_list_0_iff)
    ultimately show ?thesis using True by (simp add: split_on_none)
  next
    case False
    with Cons.prems obtain a' where "a = x # a'" "split_on c t = [a', b]"
      by (auto simp: split_on_def split: list.splits)
    with Cons.IH show ?thesis by simp
  qed
qed











lemma token_hm_Some:
  assumes "token_hm t = Some (h, m)"
  shows "(isdigit t \<and> h = digits_value t \<and> m = 0) \<or>
         (\<exists>a b. t = a @ '':'' @ b \<and> isdigit a \<and> isdigit b
                \<and> h = digits_value a \<and> m = digits_value b)"
proof (cases "isdigit t")
  case True
  then show ?thesis using assms by (simp add: token_hm_def)
next
  case False
  with assms have a: "length (split_on (CHR '':'') t) = 2"
    "isdigit (split_on (CHR '':'') t ! 0)" "isdigit (split_on (CHR '':'') t ! 1)"
    "h = digits_value (split_on (CHR '':'') t ! 0)"
    "m = digits_value (split_on (CHR '':'') t ! 1)"
    by (auto simp: token_hm_def Let_def split: if_splits)
  from a(1) obtain a b where ab: "split_on (CHR '':'') t = [a, b]"
    by (auto simp: length_Suc_conv numeral_2_eq_2)
  then have "t = a @ '':'' @ b" using split_on_two by fastforce
  then show ?thesis using a ab by auto
qed

lemma token_hm_nonneg: "token_hm t = Some (h, m) \<Longrightarrow> 0 \<le> h \<and> 0 \<le> m"
  using token_hm_Some [of t h m] by (auto simp: isdigit_def digits_value_nonneg)
















section \<open>The overlap test\<close>








section \<open>The slot generator\<close>


















section \<open>The date normalizer: next week day\<close>

lemma dropWhile_keeps_last:
  "xs \<noteq> [] \<Longrightarrow> \<not> P (last xs) \<Longrightarrow> dropWhile P xs \<noteq> [] \<and> last (dropWhile P xs) = last xs"
  by (induction xs) auto

lemma strip_hd:
  assumes "s \<noteq> []" "\<not> is_space (hd s)"
  shows "strip s \<noteq> [] \<and> hd (strip s) = hd s"
proof -
  have a: "dropWhile is_space s = s" using assms by (simp add: dropWhile_id)
  have "rev s \<noteq> []" "\<not> is_space (last (rev s))" using assms by (simp_all add: last_rev)
  from dropWhile_keeps_last [of "rev s" is_space, OF this]
  have "dropWhile is_space (rev s) \<noteq> []" "last (dropWhile is_space (rev s)) = hd s"
    using assms by (simp_all add: last_rev)
  then show ?thesis by (simp add: strip_def a hd_rev)
qed

lemma split_where_hd:
  "\<not> p c \<Longrightarrow> \<exists>w ws. split_where p (c # cs) = (c # w) # ws"
  by (auto split: list.splits)

lemma py_int_not_number:
  assumes "s \<noteq> []" "\<not> is_space (hd s)" "hd s \<noteq> CHR ''-''" "hd s \<noteq> CHR ''+''"
    "\<not> is_digit (hd s)" "hd s \<noteq> CHR ''_''"
  shows "py_int s = None"
proof -
  define t where "t = strip s"
  from strip_hd [OF assms(1,2)] have t: "t \<noteq> []" "hd t = hd s" by (simp_all add: t_def)
  then obtain c cs where tc: "t = c # cs" "c = hd s" by (cases t) auto
  then obtain w ws where "split_where (\<lambda>x. x = CHR ''_'') t = (c # w) # ws"
    using split_where_hd [of "\<lambda>x. x = CHR ''_''" c cs] assms(6) by auto
  then have "\<not> list_all isdigit (split_on (CHR ''_'') t)"
    using assms(5) tc by (simp add: split_on_def isdigit_def)
  then show ?thesis
    using assms(3,4) t by (simp add: py_int_def Let_def t_def [symmetric])
qed

lemma index_of_Some: "index_of x xs = Some i \<Longrightarrow> i < length xs \<and> xs ! i = x"
  by (induction xs arbitrary: i) (auto split: if_splits)

lemma weekday_index_lt: "weekday_index w = Some i \<Longrightarrow> i < 7"
  using index_of_Some [of "capitalize (take 3 w)" WEEKDAY_NAMES i]
  by (simp add: weekday_index_def WEEKDAY_NAMES_def)

lemma is_space_lower_char: "is_space (lower_char c) = is_space c"
  by (auto simp: lower_char_def is_space_def)

lemma split_where_first_field:
  assumes "split_where p s = [a, b]" "s \<noteq> []" "\<not> p (hd s)"
  shows "a \<noteq> [] \<and> hd a = hd s"
  using assms by (cases s) (auto split: list.splits if_splits)

lemma parse_next_weekday:
  assumes w: "w \<noteq> []" "\<forall>c\<in>set w. \<not> is_space c" and i: "weekday_index (lower w) = Some i"
  shows "parse_natural_date (''next '' @ w) anchor =
           shift_days anchor (let delta = (int i - weekday anchor) mod 7
                              in if delta = 0 then 7 else delta)"
proof -
  define w' where "w' = lower w"
  define s where "s = ''next '' @ w'"
  have w'ne: "w' \<noteq> []" using w by (simp add: w'_def lower_def)
  have w'sp: "\<forall>c\<in>set w'. \<not> is_space c" using w by (auto simp: w'_def lower_def is_space_lower_char)
  have "\<not> is_space (last (''next '' @ w))" using w by simp
  moreover have "\<not> is_space (hd (''next '' @ w))" by (simp add: is_space_def)
  ultimately have "strip (''next '' @ w) = ''next '' @ w" by (intro strip_id) simp_all
  then have s: "lower (strip (''next '' @ w)) = s"
    by (simp add: s_def w'_def lower_def lower_char_def)
  have sne: "s \<noteq> []" by (simp add: s_def)
  have iso: "parse_iso s anchor = None" by (simp add: parse_iso_def s_def)
  have mmdd: "parse_mmdd s anchor = None"
  proof (cases "\<exists>m d. split_on (CHR ''/'') s = [m, d]")
    case False
    then show ?thesis by (auto simp: parse_mmdd_def split: list.splits)
  next
    case True
    then obtain m d where md: "split_on (CHR ''/'') s = [m, d]" by blast
    then have "m \<noteq> [] \<and> hd m = hd s"
      unfolding split_on_def by (rule split_where_first_field) (simp_all add: s_def)
    then have "m \<noteq> []" "hd m = CHR ''n''" by (simp_all add: s_def)
    then have "py_int m = None"
      by (intro py_int_not_number) (simp_all add: is_space_def is_digit_def)
    then show ?thesis using md by (simp add: parse_mmdd_def)
  qed
  have notkw: "s \<notin> set [''today'', ''todays'', ''to day'']" "s \<notin> set [''tomorrow'', ''tmrw'', ''tmr'']"
    by (simp_all add: s_def)
  have "split_where is_space w' = [w']" using w'sp by (rule split_where_none)
  then have "split_where is_space s = [''next'', w']"
    by (simp add: s_def is_space_def)
  then have toks: "split_ws s = [''next'', w']" using w'ne by (simp add: split_ws_def)
  have "parse_weekday_forms s anchor =
           shift_days anchor (let delta = (int i - weekday anchor) mod 7
                              in if delta = 0 then 7 else delta)"
    using i by (simp add: parse_weekday_forms_def toks w'_def)
  then show ?thesis
    unfolding parse_natural_date_def s Let_def using sne iso mmdd notkw by simp
qed

lemma next_delta_props:
  assumes "i < 7"
  shows "1 \<le> next_delta i a" "next_delta i a \<le> 7"
    "(dt_ordinal a + next_delta i a + 6) mod 7 = int i"
    "next_delta i a = 7 \<longleftrightarrow> weekday a = int i"
proof -
  define wd where "wd = weekday a"
  define q where "q = (dt_ordinal a + 6) div 7"
  define d where "d = (int i - wd) mod 7"
  have wd: "0 \<le> wd" "wd < 7" by (simp_all add: wd_def weekday_def)
  have o: "dt_ordinal a + 6 = 7 * q + wd" by (simp add: q_def wd_def weekday_def)
  have d_eq: "d = (if wd \<le> int i then int i - wd else int i - wd + 7)"
  proof (cases "wd \<le> int i")
    case True
    then show ?thesis using assms wd by (simp add: d_def)
  next
    case False
    have "(int i - wd) mod 7 = (int i - wd + 7) mod 7" by simp
    also have "\<dots> = int i - wd + 7" using False assms wd by (intro mod_pos_pos_trivial) simp_all
    finally show ?thesis using False by (simp add: d_def)
  qed
  have n: "next_delta i a = (if d = 0 then 7 else d)"
    by (simp add: next_delta_def d_def wd_def Let_def)
  have nd: "next_delta i a = (if wd < int i then int i - wd else int i - wd + 7)"
    using wd assms by (auto simp: n d_eq)
  show "1 \<le> next_delta i a" "next_delta i a \<le> 7" using wd assms by (auto simp: nd)
  have "dt_ordinal a + next_delta i a + 6 = (7 * q + wd) + next_delta i a"
    using o by simp
  also have "\<dots> = (if wd < int i then 7 * q + int i else 7 * (q + 1) + int i)"
    by (simp add: nd)
  finally have e: "dt_ordinal a + next_delta i a + 6
                     = (if wd < int i then 7 * q + int i else 7 * (q + 1) + int i)" .
  have m: "(7 * k + int i) mod 7 = int i" for k using assms by simp
  show "(dt_ordinal a + next_delta i a + 6) mod 7 = int i"
    unfolding e by (cases "wd < int i") (simp_all only: if_True if_False m)
  show "next_delta i a = 7 \<longleftrightarrow> weekday a = int i"
    using wd assms unfolding nd wd_def [symmetric] by auto
qed

text \<open>
  Claim C2, as amended.  For an anchor at least seven days before 9999-12-31 and a
  token \<open>w\<close> that names a week day, \<^verbatim>\<open>"next " + w\<close> resolves to midnight of the first
  date strictly after the anchor's date that falls on that week day: between one and
  seven days out.  The distance is seven days exactly when the anchor's week day is the
  requested one, so the result is never the current day.
\<close>

theorem next_weekday_amended:
  "w \<noteq> [] \<and> (\<forall>c\<in>set w. \<not> is_space c) \<and> weekday_index (lower w) = Some i \<and>
   1 \<le> dt_ordinal a \<and> dt_ordinal a + 7 \<le> MAXORDINAL \<longrightarrow>
     1 \<le> next_delta i a \<and> next_delta i a \<le> 7 \<and>
     parse_natural_date (''next '' @ w) a
       = Inr (Some (midnight (a\<lparr>dt_ordinal := dt_ordinal a + next_delta i a\<rparr>))) \<and>
     weekday (midnight (a\<lparr>dt_ordinal := dt_ordinal a + next_delta i a\<rparr>)) = int i \<and>
     (next_delta i a = 7 \<longleftrightarrow> weekday a = int i)"
proof (intro impI)
  assume h: "w \<noteq> [] \<and> (\<forall>c\<in>set w. \<not> is_space c) \<and> weekday_index (lower w) = Some i \<and>
   1 \<le> dt_ordinal a \<and> dt_ordinal a + 7 \<le> MAXORDINAL"
  then have i7: "i < 7" using weekday_index_lt by blast
  note p = next_delta_props [OF i7, of a]
  have "add_days a (next_delta i a) = Some (a\<lparr>dt_ordinal := dt_ordinal a + next_delta i a\<rparr>)"
    using h p(1,2) by (simp add: add_days_def)
  then have "shift_days a (next_delta i a)
       = Inr (Some (midnight (a\<lparr>dt_ordinal := dt_ordinal a + next_delta i a\<rparr>)))"
    by (simp add: shift_days_def)
  moreover have "parse_natural_date (''next '' @ w) a = shift_days a (next_delta i a)"
    using h parse_next_weekday [of w i a] by (simp add: next_delta_def)
  moreover have "weekday (midnight (a\<lparr>dt_ordinal := dt_ordinal a + next_delta i a\<rparr>)) = int i"
    using p(3) by (simp add: weekday_def midnight_def)
  ultimately show "1 \<le> next_delta i a \<and> next_delta i a \<le> 7 \<and>
     parse_natural_date (''next '' @ w) a
       = Inr (Some (midnight (a\<lparr>dt_ordinal := dt_ordinal a + next_delta i a\<rparr>))) \<and>
     weekday (midnight (a\<lparr>dt_ordinal := dt_ordinal a + next_delta i a\<rparr>)) = int i \<and>
     (next_delta i a = 7 \<longleftrightarrow> weekday a = int i)"
    using p by simp
qed

text \<open>\<^verbatim>\<open>next Mon\<close> said on Monday 2025-10-20 is Monday 2025-10-27.\<close>

theorem next_weekday_amended_witness:
  "weekday monday_anchor = 0 \<and> weekday_index (lower ''Mon'') = Some 0 \<and>
   next_delta 0 monday_anchor = 7 \<and>
   parse_natural_date ''next Mon'' monday_anchor
     = Inr (Some \<lparr>dt_ordinal = 739551, dt_hour = 0, dt_minute = 0, dt_second = 0,
                  dt_microsecond = 0\<rparr>)"
proof -
  have wi: "weekday_index (lower ''Mon'') = Some 0" by code_simp
  have wd: "weekday monday_anchor = 0" by code_simp
  have h: "''Mon'' \<noteq> [] \<and> (\<forall>c\<in>set ''Mon''. \<not> is_space c) \<and> weekday_index (lower ''Mon'') = Some 0 \<and>
   1 \<le> dt_ordinal monday_anchor \<and> dt_ordinal monday_anchor + 7 \<le> MAXORDINAL"
    using wi by (simp add: is_space_def monday_anchor_def MAXORDINAL_def)
  note th = next_weekday_amended [of "''Mon''" 0 monday_anchor, THEN mp, OF h]
  from th wd have d: "next_delta 0 monday_anchor = 7" by simp
  from th have "parse_natural_date ''next Mon'' monday_anchor
       = Inr (Some (midnight (monday_anchor\<lparr>dt_ordinal := dt_ordinal monday_anchor + 7\<rparr>)))"
    by (simp add: d)
  then show ?thesis using wi wd d by (simp add: midnight_def monday_anchor_def)
qed

text \<open>
  Claim C2 as stated fails: said on Monday 2025-10-20 (ordinal 739544), \<^verbatim>\<open>next Tue\<close>
  is the next day, less than a week out, and \<^verbatim>\<open>next Mon\<close> is seven days later, not
  eight.
\<close>

theorem next_weekday_counterexample:
  "weekday monday_anchor = 0 \<and> dt_ordinal monday_anchor = 739544 \<and>
   (739545::int) - 739544 < 7 \<and> (739551::int) - 739544 \<noteq> 8 \<and>
   parse_natural_date ''next Tue'' monday_anchor
     = Inr (Some \<lparr>dt_ordinal = 739545, dt_hour = 0, dt_minute = 0, dt_second = 0,
                  dt_microsecond = 0\<rparr>) \<and>
   parse_natural_date ''next Mon'' monday_anchor
     = Inr (Some \<lparr>dt_ordinal = 739551, dt_hour = 0, dt_minute = 0, dt_second = 0,
                  dt_microsecond = 0\<rparr>)"
  by code_simp

section \<open>Hours\<close>










section \<open>Unrecognized date phrases\<close>






section \<open>Rejections of a booking\<close>

lemma book_appointment_bad_time:
  "normalize_time_to_hhmm start = None \<Longrightarrow>
   book_appointment e st d start svc c p m = Some (Inr BookBadTime, st)"
  by (simp add: book_appointment_def Let_def)

lemma book_appointment_checked:
  "normalize_time_to_hhmm start = Some t \<Longrightarrow>
   book_appointment e st d start svc c p m =
     (case check_availability e st (Some (booking_date d)) svc 10000 None of
        None \<Rightarrow> None
      | Some (Inl err) \<Rightarrow> Some (Inl err, st)
      | Some (Inr (AvailClosed dd w)) \<Rightarrow> Some (Inr BookClosed, st)
      | Some (Inr AvailError) \<Rightarrow>
          Some (Inr (BookUnavailable [] None svc (get_service_minutes e svc)), st)
      | Some (Inr (AvailOpen date w s mm free_slots tot)) \<Rightarrow>
          if t \<notin> set free_slots
          then Some (Inr (BookUnavailable (take 10 free_slots) (Some date) svc
                            (get_service_minutes e svc)), st)
          else commit_booking e st date t svc (get_service_minutes e svc) c p m)"
  by (simp add: book_appointment_def Let_def booking_date_def)




lemma append_appointment_failed_store:
  "\<not> fst (fst (append_appointment e st date t m)) \<Longrightarrow> snd (append_appointment e st date t m) = st"
  by (auto simp: append_appointment_def Let_def split: option.splits if_splits)

lemma commit_booking_failed:
  assumes "\<not> fst (fst (append_appointment e st date t m))"
    and "check_availability e st (Some date) svc 8 None = Some (Inr fresh)"
  shows "commit_booking e st date t svc m c p em
           = Some (Inr (BookJustTaken (snd (fst (append_appointment e st date t m)))
                          (avail_available fresh) date svc m), st)"
proof -
  obtain ok msg st' where a: "append_appointment e st date t m = ((ok, msg), st')"
    by (metis prod.collapse)
  with assms(1) append_appointment_failed_store [OF assms(1)] have "\<not> ok" "st' = st" by simp_all
  then show ?thesis using assms(2) a by (simp add: commit_booking_def)
qed

text \<open>
  Claim C5, as amended.  A rejection for a bad time format or a closed day carries no
  alternatives.  A slot-not-available rejection carries the first ten slots that the
  re-check of the same call computed, and leaves the files as they were.  When the
  commit finds the slot taken, the rejection carries the list of a fresh
  \<^verbatim>\<open>check_availability\<close> on the calendar as it is after the failed attempt.
\<close>

theorem rejection_alternatives_amended:
  "(normalize_time_to_hhmm start = None \<longrightarrow>
      book_appointment e st d start svc c p em = Some (Inr BookBadTime, st) \<and>
      book_alternatives BookBadTime = None) \<and>
   (normalize_time_to_hhmm start = Some t \<and>
    check_availability e st (Some (booking_date d)) svc 10000 None = Some (Inr av) \<and>
    avail_closed av \<longrightarrow>
      book_appointment e st d start svc c p em = Some (Inr BookClosed, st) \<and>
      book_alternatives BookClosed = None) \<and>
   (normalize_time_to_hhmm start = Some t \<and>
    check_availability e st (Some (booking_date d)) svc 10000 None = Some (Inr av) \<and>
    \<not> avail_closed av \<and> t \<notin> set (avail_available av) \<longrightarrow>
      (\<exists>r. book_appointment e st d start svc c p em = Some (Inr r, st) \<and>
           \<not> book_success r \<and>
           book_alternatives r = Some (take 10 (avail_available av)))) \<and>
   (\<not> fst (fst (append_appointment e st date t m)) \<and>
    check_availability e st (Some date) svc 8 None = Some (Inr fresh) \<longrightarrow>
      (\<exists>r. commit_booking e st date t svc m c p em = Some (Inr r, st) \<and>
           \<not> book_success r \<and>
           book_alternatives r = Some (avail_available fresh)))"
proof (intro conjI)
  show "normalize_time_to_hhmm start = None \<longrightarrow>
      book_appointment e st d start svc c p em = Some (Inr BookBadTime, st) \<and>
      book_alternatives BookBadTime = None"
    by (simp add: book_appointment_bad_time)
  show "normalize_time_to_hhmm start = Some t \<and>
    check_availability e st (Some (booking_date d)) svc 10000 None = Some (Inr av) \<and>
    avail_closed av \<longrightarrow>
      book_appointment e st d start svc c p em = Some (Inr BookClosed, st) \<and>
      book_alternatives BookClosed = None"
    by (cases av) (simp_all add: book_appointment_checked)
  show "normalize_time_to_hhmm start = Some t \<and>
    check_availability e st (Some (booking_date d)) svc 10000 None = Some (Inr av) \<and>
    \<not> avail_closed av \<and> t \<notin> set (avail_available av) \<longrightarrow>
      (\<exists>r. book_appointment e st d start svc c p em = Some (Inr r, st) \<and>
           \<not> book_success r \<and>
           book_alternatives r = Some (take 10 (avail_available av)))"
    by (cases av) (simp_all add: book_appointment_checked)
  show "\<not> fst (fst (append_appointment e st date t m)) \<and>
    check_availability e st (Some date) svc 8 None = Some (Inr fresh) \<longrightarrow>
      (\<exists>r. commit_booking e st date t svc m c p em = Some (Inr r, st) \<and>
           \<not> book_success r \<and>
           book_alternatives r = Some (avail_available fresh))"
    using commit_booking_failed [of e st date t m svc fresh c p em] by auto
qed

text \<open>Asking for 10:00 on the Saturday where 10:00 to 10:30 is booked.\<close>

theorem rejection_alternatives_amended_witness:
  "normalize_time_to_hhmm ''10:00'' = Some ''10:00'' \<and>
   check_availability saturday_env wit_store (Some (booking_date ''Sat'')) None 10000 None
     = Some (Inr (AvailOpen ''2025-10-18'' ''Sat'' None 30 [''10:30'', ''11:00'', ''11:30''] 3)) \<and>
   (\<exists>r. book_appointment saturday_env wit_store ''Sat'' ''10:00'' None ''Ann'' ''555'' ''a@b''
           = Some (Inr r, wit_store) \<and>
        \<not> book_success r \<and>
        book_alternatives r = Some [''10:30'', ''11:00'', ''11:30''])"
proof -
  have n: "normalize_time_to_hhmm ''10:00'' = Some ''10:00''" by code_simp
  have a: "check_availability saturday_env wit_store (Some (booking_date ''Sat'')) None 10000 None
     = Some (Inr (AvailOpen ''2025-10-18'' ''Sat'' None 30 [''10:30'', ''11:00'', ''11:30''] 3))"
    by code_simp
  have h: "normalize_time_to_hhmm ''10:00'' = Some ''10:00'' \<and>
    check_availability saturday_env wit_store (Some (booking_date ''Sat'')) None 10000 None
     = Some (Inr (AvailOpen ''2025-10-18'' ''Sat'' None 30 [''10:30'', ''11:00'', ''11:30''] 3)) \<and>
    \<not> avail_closed (AvailOpen ''2025-10-18'' ''Sat'' None 30 [''10:30'', ''11:00'', ''11:30''] 3) \<and>
    ''10:00'' \<notin> set (avail_available
        (AvailOpen ''2025-10-18'' ''Sat'' None 30 [''10:30'', ''11:00'', ''11:30''] 3))"
    using n a by simp
  from rejection_alternatives_amended [where start = "''10:00''" and t = "''10:00''"
      and e = saturday_env and st = wit_store and d = "''Sat''" and svc = None
      and av = "AvailOpen ''2025-10-18'' ''Sat'' None 30 [''10:30'', ''11:00'', ''11:30''] 3"
      and c = "''Ann''" and p = "''555''" and em = "''a@b''",
      THEN conjunct2, THEN conjunct2, THEN conjunct1, THEN mp, OF h]
  show ?thesis using n a by simp
qed

text \<open>
  Claim C5 as stated fails: the rejections for the time \<^verbatim>\<open>25:15\<close> and for a closed
  day have no key \<^verbatim>\<open>alternatives\<close>.
\<close>

theorem rejection_alternatives_counterexample:
  "map_option fst (book_appointment saturday_env wit_store ''Sat'' ''25:15'' None ''Ann'' ''555'' ''a@b'')
     = Some (Inr BookBadTime) \<and>
   book_alternatives BookBadTime = None \<and>
   map_option fst (book_appointment holiday_env wit_store ''Sat'' ''10:30'' None ''Ann'' ''555'' ''a@b'')
     = Some (Inr BookClosed) \<and>
   book_alternatives BookClosed = None"
  by code_simp

section \<open>The overlap invariant\<close>





















section \<open>Repeating a booking\<close>
















end
